theory Spec2Isabelle
  imports Main "HOL-Library.Sublist"
begin

section \<open>JavaScript values of the metadata server\<close>

text \<open>
  The handler of \<^verbatim>\<open>POST /create-metadata\<close> in \<^verbatim>\<open>server.js\<close> works on the body that
  \<^verbatim>\<open>express.json()\<close> parsed, so its inputs are the values JSON can denote, together with
  \<^verbatim>\<open>undefined\<close> (what reading an absent property gives). Two more kinds of value enter
  through \<^verbatim>\<open>typeMap[type]\<close>: the object literal \<^verbatim>\<open>typeMap\<close> inherits from
  \<^verbatim>\<open>Object.prototype\<close>, so a lookup can return one of its built-in functions or, for the
  key \<^verbatim>\<open>__proto__\<close>, the prototype object itself.

  A number is carried as its canonical rendering (what \<^verbatim>\<open>String(n)\<close> returns): the program
  observes a number only through its truthiness and its conversion to a string. An object
  is the list of its own properties, each key once.
\<close>

datatype jsval =
    Undefined
  | Null
  | Bool bool
  | Num string
  | Str string
  | Arr "jsval list"
  | Obj "(string \<times> jsval) list"
  | NativeFunction string
  | ObjectPrototype

text \<open>What a \<^verbatim>\<open>throw\<close> carries: the kind of the error and its \<^verbatim>\<open>message\<close>.\<close>

datatype thrown = TypeError string | SystemError string

fun message :: "thrown \<Rightarrow> string" where
  "message (TypeError m) = m"
| "message (SystemError m) = m"

text \<open>Sequencing of computations that may throw: the first error is the result.\<close>

definition attempt :: "thrown + 'a \<Rightarrow> ('a \<Rightarrow> thrown + 'b) \<Rightarrow> thrown + 'b" where
  "attempt r f = (case r of Inl e \<Rightarrow> Inl e | Inr x \<Rightarrow> f x)"

text \<open>\<^verbatim>\<open>!v\<close> is \<open>\<not> truthy v\<close>. Among numbers only zero is falsy (JSON has no NaN).\<close>

fun truthy :: "jsval \<Rightarrow> bool" where
  "truthy Undefined = False"
| "truthy Null = False"
| "truthy (Bool b) = b"
| "truthy (Num t) = (t \<noteq> ''0'')"
| "truthy (Str s) = (s \<noteq> [])"
| "truthy (Arr xs) = True"
| "truthy (Obj kvs) = True"
| "truthy (NativeFunction f) = True"
| "truthy ObjectPrototype = True"

fun isArray :: "jsval \<Rightarrow> bool" where
  "isArray (Arr xs) = True"
| "isArray v = False"

text \<open>
  The conversion to a string that a template literal and a property key apply. An array
  joins its elements with a comma, \<^verbatim>\<open>null\<close> and \<^verbatim>\<open>undefined\<close> elements giving the empty
  string. A plain object gives \<^verbatim>\<open>[object Object]\<close>, unless it has an own property
  \<^verbatim>\<open>toString\<close>: a parsed value is never callable, the inherited \<^verbatim>\<open>valueOf\<close> returns the
  object itself, and the conversion throws a TypeError.
\<close>

fun to_string :: "jsval \<Rightarrow> thrown + string"
  and join_elements :: "jsval list \<Rightarrow> thrown + string" where
  "to_string Undefined = Inr ''undefined''"
| "to_string Null = Inr ''null''"
| "to_string (Bool b) = Inr (if b then ''true'' else ''false'')"
| "to_string (Num t) = Inr t"
| "to_string (Str s) = Inr s"
| "to_string (Arr xs) = join_elements xs"
| "to_string (Obj kvs) =
     (if ''toString'' \<in> fst ` set kvs
      then Inl (TypeError ''Cannot convert object to primitive value'')
      else Inr ''[object Object]'')"
| "to_string (NativeFunction f) = Inr (''function '' @ f @ ''() { [native code] }'')"
| "to_string ObjectPrototype = Inr ''[object Object]''"
| "join_elements [] = Inr []"
| "join_elements (x # xs) =
     (case (if x = Undefined \<or> x = Null then Inr [] else to_string x) of
        Inl e \<Rightarrow> Inl e
      | Inr s \<Rightarrow>
          (case join_elements xs of
             Inl e \<Rightarrow> Inl e
           | Inr r \<Rightarrow> Inr (if xs = [] then s else s @ '','' @ r)))"

text \<open>
  Reading a property \<open>v.k\<close>, for the keys this program reads (\<^verbatim>\<open>objectName\<close>,
  \<^verbatim>\<open>fields\<close>, \<^verbatim>\<open>orgAlias\<close>, \<^verbatim>\<open>name\<close>, \<^verbatim>\<open>label\<close>, \<^verbatim>\<open>type\<close>): no prototype of a parsed
  value defines any of them, so an object answers with its own property and a primitive
  or an array with \<^verbatim>\<open>undefined\<close>. Reading a property of \<^verbatim>\<open>null\<close> or \<^verbatim>\<open>undefined\<close> throws.
\<close>

fun property :: "jsval \<Rightarrow> string \<Rightarrow> thrown + jsval" where
  "property Undefined k =
     Inl (TypeError (''Cannot read properties of undefined (reading '' @ [CHR 0x27] @ k @ [CHR 0x27] @ '')''))"
| "property Null k =
     Inl (TypeError (''Cannot read properties of null (reading '' @ [CHR 0x27] @ k @ [CHR 0x27] @ '')''))"
| "property (Obj kvs) k = Inr (case map_of kvs k of None \<Rightarrow> Undefined | Some v \<Rightarrow> v)"
| "property (NativeFunction f) k = Inr (if k = ''name'' then Str f else Undefined)"
| "property v k = Inr Undefined"

section \<open>Descriptor generation\<close>

text \<open>\<^verbatim>\<open>generateObjectMetadata(objectName, fields)\<close>, lines 121 to 142.\<close>

definition generateObjectMetadata :: "jsval \<Rightarrow> jsval \<Rightarrow> thrown + string" where
  \<open>generateObjectMetadata objectName fields =
     attempt (to_string objectName) (\<lambda>n. Inr (
       ''<?xml version="1.0" encoding="UTF-8"?>\<newline>'' @
       ''<CustomObject xmlns="http://soap.sforce.com/2006/04/metadata">\<newline>'' @
       ''    <fullName>'' @ n @ ''__c</fullName>\<newline>'' @
       ''    <label>'' @ n @ ''</label>\<newline>'' @
       ''    <pluralLabel>'' @ n @ ''s</pluralLabel>\<newline>'' @
       ''    <nameField>\<newline>'' @
       ''        <type>AutoNumber</type>\<newline>'' @
       ''        <label>'' @ n @ '' Number</label>\<newline>'' @
       ''        <displayFormat>'' @ n @ ''-{0000}</displayFormat>\<newline>'' @
       ''    </nameField>\<newline>'' @
       ''    <sharingModel>ReadWrite</sharingModel>\<newline>'' @
       ''    <enableSharing>true</enableSharing>\<newline>'' @
       ''    <enableBulkApi>true</enableBulkApi>\<newline>'' @
       ''    <enableStreamingApi>true</enableStreamingApi>\<newline>'' @
       ''    <enableReports>true</enableReports>\<newline>'' @
       ''    <enableSearch>true</enableSearch>\<newline>'' @
       ''    <enableHistory>false</enableHistory>\<newline>'' @
       ''    <enableActivities>true</enableActivities>\<newline>'' @
       ''    <deploymentStatus>Deployed</deploymentStatus>\<newline>'' @
       ''</CustomObject>''))\<close>

text \<open>
  \<^verbatim>\<open>getFieldType(type)\<close>, lines 231 to 246. \<^verbatim>\<open>typeMap\<close> is an object literal, so
  \<^verbatim>\<open>typeMap[type]\<close> converts \<^verbatim>\<open>type\<close> to a property key and, where \<^verbatim>\<open>typeMap\<close> has no
  own property of that name, goes on to \<^verbatim>\<open>Object.prototype\<close>.
\<close>

definition typeMap :: "(string \<times> jsval) list" where
  "typeMap =
     [(''Text'', Str ''Text''),
      (''TextArea'', Str ''TextArea''),
      (''Date'', Str ''Date''),
      (''DateTime'', Str ''DateTime''),
      (''Number'', Str ''Number''),
      (''Checkbox'', Str ''Checkbox''),
      (''Picklist'', Str ''Picklist''),
      (''Email'', Str ''Email''),
      (''Phone'', Str ''Phone''),
      (''URL'', Str ''Url'')]"

definition object_prototype :: "(string \<times> jsval) list" where
  "object_prototype =
     [(''constructor'', NativeFunction ''Object''),
      (''__defineGetter__'', NativeFunction ''__defineGetter__''),
      (''__defineSetter__'', NativeFunction ''__defineSetter__''),
      (''hasOwnProperty'', NativeFunction ''hasOwnProperty''),
      (''__lookupGetter__'', NativeFunction ''__lookupGetter__''),
      (''__lookupSetter__'', NativeFunction ''__lookupSetter__''),
      (''isPrototypeOf'', NativeFunction ''isPrototypeOf''),
      (''propertyIsEnumerable'', NativeFunction ''propertyIsEnumerable''),
      (''toString'', NativeFunction ''toString''),
      (''valueOf'', NativeFunction ''valueOf''),
      (''__proto__'', ObjectPrototype),
      (''toLocaleString'', NativeFunction ''toLocaleString'')]"

definition typeMap_get :: "string \<Rightarrow> jsval" where
  "typeMap_get key =
     (case map_of typeMap key of
        Some v \<Rightarrow> v
      | None \<Rightarrow> (case map_of object_prototype key of Some v \<Rightarrow> v | None \<Rightarrow> Undefined))"

definition getFieldType :: "jsval \<Rightarrow> thrown + jsval" where
  "getFieldType type =
     attempt (to_string type) (\<lambda>key.
       Inr (if truthy (typeMap_get key) then typeMap_get key else Str ''Text''))"

text \<open>\<^verbatim>\<open>generateFieldXml(field, fieldType)\<close>, lines 159 to 228.\<close>

definition baseXml :: "string \<Rightarrow> string \<Rightarrow> string \<Rightarrow> string" where
  "baseXml name label type =
     ''    <fields>\<newline>'' @
     ''        <fullName>'' @ name @ ''__c</fullName>\<newline>'' @
     ''        <label>'' @ label @ ''</label>\<newline>'' @
     ''        <type>'' @ type @ ''</type>''"

definition picklist_tail :: string where
  "picklist_tail =
     ''\<newline>        <valueSet>\<newline>'' @
     ''            <restricted>true</restricted>\<newline>'' @
     ''            <valueSetDefinition>\<newline>'' @
     ''                <sorted>false</sorted>\<newline>'' @
     ''                <value>\<newline>'' @
     ''                    <fullName>Option 1</fullName>\<newline>'' @
     ''                    <default>false</default>\<newline>'' @
     ''                    <label>Option 1</label>\<newline>'' @
     ''                </value>\<newline>'' @
     ''                <value>\<newline>'' @
     ''                    <fullName>Option 2</fullName>\<newline>'' @
     ''                    <default>false</default>\<newline>'' @
     ''                    <label>Option 2</label>\<newline>'' @
     ''                </value>\<newline>'' @
     ''            </valueSetDefinition>\<newline>'' @
     ''        </valueSet>\<newline>'' @
     ''        <required>false</required>\<newline>'' @
     ''    </fields>''"

definition generateFieldXml :: "jsval \<Rightarrow> jsval \<Rightarrow> thrown + string" where
  "generateFieldXml field fieldType =
     attempt (property field ''name'') (\<lambda>name. attempt (to_string name) (\<lambda>n.
     attempt (property field ''label'') (\<lambda>label. attempt (to_string label) (\<lambda>l.
     attempt (to_string fieldType) (\<lambda>t.
       Inr (baseXml n l t @
         (if fieldType = Str ''Text'' then
            ''\<newline>        <length>255</length>\<newline>'' @
            ''        <required>false</required>\<newline>'' @
            ''    </fields>''
          else if fieldType = Str ''TextArea'' then
            ''\<newline>        <length>32768</length>\<newline>'' @
            ''        <visibleLines>3</visibleLines>\<newline>'' @
            ''        <required>false</required>\<newline>'' @
            ''    </fields>''
          else if fieldType = Str ''Date'' then
            ''\<newline>        <required>false</required>\<newline>'' @
            ''    </fields>''
          else if fieldType = Str ''DateTime'' then
            ''\<newline>        <required>false</required>\<newline>'' @
            ''    </fields>''
          else if fieldType = Str ''Number'' then
            ''\<newline>        <precision>18</precision>\<newline>'' @
            ''        <scale>0</scale>\<newline>'' @
            ''        <required>false</required>\<newline>'' @
            ''    </fields>''
          else if fieldType = Str ''Checkbox'' then
            ''\<newline>        <defaultValue>false</defaultValue>\<newline>'' @
            ''    </fields>''
          else if fieldType = Str ''Picklist'' then picklist_tail
          else
            ''\<newline>        <length>255</length>\<newline>'' @
            ''        <required>false</required>\<newline>'' @
            ''    </fields>'')))))))"

text \<open>
  \<^verbatim>\<open>generateFieldsMetadata(fields)\<close>, lines 145 to 156: \<^verbatim>\<open>fields.map\<close> visits the
  entries in order, and the fragments are joined with a newline.
\<close>

fun map_try :: "('a \<Rightarrow> thrown + 'b) \<Rightarrow> 'a list \<Rightarrow> thrown + 'b list" where
  "map_try f [] = Inr []"
| "map_try f (x # xs) =
     (case f x of
        Inl e \<Rightarrow> Inl e
      | Inr y \<Rightarrow> (case map_try f xs of Inl e \<Rightarrow> Inl e | Inr ys \<Rightarrow> Inr (y # ys)))"

fun join :: "string \<Rightarrow> string list \<Rightarrow> string" where
  "join sep [] = []"
| "join sep [x] = x"
| "join sep (x # y # ys) = x @ sep @ join sep (y # ys)"

definition fieldElement :: "jsval \<Rightarrow> thrown + string" where
  "fieldElement field =
     attempt (property field ''type'') (\<lambda>type. attempt (getFieldType type) (\<lambda>fieldType.
       generateFieldXml field fieldType))"

definition generateFieldsMetadata :: "jsval \<Rightarrow> thrown + string" where
  \<open>generateFieldsMetadata fields =
     (case fields of
        Arr entries \<Rightarrow>
          attempt (map_try fieldElement entries) (\<lambda>fragments. Inr (
            ''<?xml version="1.0" encoding="UTF-8"?>\<newline>'' @
            ''<CustomObject xmlns="http://soap.sforce.com/2006/04/metadata">\<newline>'' @
            join ''\<newline>'' fragments @
            ''\<newline></CustomObject>''))
      | Undefined \<Rightarrow>
          Inl (TypeError ''Cannot read properties of undefined (reading 'map')'')
      | Null \<Rightarrow>
          Inl (TypeError ''Cannot read properties of null (reading 'map')'')
      | _ \<Rightarrow> Inl (TypeError ''fields.map is not a function''))\<close>

text \<open>\<^verbatim>\<open>generatePackageXml(objectName)\<close>, lines 249 to 258.\<close>

definition generatePackageXml :: "jsval \<Rightarrow> thrown + string" where
  \<open>generatePackageXml objectName =
     attempt (to_string objectName) (\<lambda>n. Inr (
       ''<?xml version="1.0" encoding="UTF-8"?>\<newline>'' @
       ''<Package xmlns="http://soap.sforce.com/2006/04/metadata">\<newline>'' @
       ''    <types>\<newline>'' @
       ''        <members>'' @ n @ ''__c</members>\<newline>'' @
       ''        <name>CustomObject</name>\<newline>'' @
       ''    </types>\<newline>'' @
       ''    <version>58.0</version>\<newline>'' @
       ''</Package>''))\<close>

section \<open>The handler of POST /create-metadata\<close>

text \<open>
  A response is a status and the value handed to \<^verbatim>\<open>res.json\<close> (how that value is
  written to the wire is the framework's). What the handler does to the outside is a list
  of effects, in the order of the calls: the calls of \<^verbatim>\<open>fs\<close> and the launch of the
  deployment subprocess. A path is the sequence of segments handed to \<^verbatim>\<open>path.join\<close>.
  Writing to the console is left out.
\<close>

record response =
  status :: nat
  body :: jsval

type_synonym path = "string list"

datatype effect =
    ExistsSync path
  | RmSync path
  | MkdirSync path
  | WriteFileSync path string
  | Exec string

text \<open>
  What \<^verbatim>\<open>exec\<close> hands to its callback: \<^verbatim>\<open>error\<close> (absent, or an error with a
  message), \<^verbatim>\<open>stdout\<close> and \<^verbatim>\<open>stderr\<close>.
\<close>

record exec_result =
  exec_error :: "string option"
  stdout :: string
  stderr :: string

text \<open>
  The world outside the handler: whether a path exists, with which message a call of
  \<^verbatim>\<open>fs\<close> throws (if it does), how the subprocess started by a command ends, the
  message with which \<^verbatim>\<open>exec\<close> refuses a command that holds a NUL byte (the runtime words
  it, with its own rendering of the command), and with which message the start of a
  subprocess throws (if the system refuses it).
\<close>

record world =
  existsSync :: "path \<Rightarrow> bool"
  fs_fault :: "effect \<Rightarrow> string option"
  exec :: "string \<Rightarrow> exec_result"
  exec_refusal :: "string \<Rightarrow> string"
  spawn_fault :: "string \<Rightarrow> string option"

text \<open>
  A statement of the handler throws, returns a response, or goes on to the next statement.
\<close>

datatype 'a flow = Throw thrown | Return response | Next 'a

definition bad_request :: "string \<Rightarrow> response" where
  "bad_request msg =
     \<lparr>status = 400, body = Obj [(''error'', Str ''Bad Request''), (''message'', Str msg)]\<rparr>"

text \<open>Line 45: \<^verbatim>\<open>!field.name || !field.label || !field.type\<close>.\<close>

definition invalid_field :: "jsval \<Rightarrow> thrown + bool" where
  "invalid_field field =
     attempt (property field ''name'') (\<lambda>name. if \<not> truthy name then Inr True else
     attempt (property field ''label'') (\<lambda>label. if \<not> truthy label then Inr True else
     attempt (property field ''type'') (\<lambda>type. Inr (\<not> truthy type))))"

text \<open>Lines 44 to 51: the loop over the entries of \<^verbatim>\<open>fields\<close>.\<close>

fun check_fields :: "jsval list \<Rightarrow> unit flow" where
  "check_fields [] = Next ()"
| "check_fields (field # rest) =
     (case invalid_field field of
        Inl e \<Rightarrow> Throw e
      | Inr invalid \<Rightarrow>
          if invalid
          then Return (bad_request ''Each field must have name, label, and type properties'')
          else check_fields rest)"

text \<open>The entries a \<^verbatim>\<open>for ... of\<close> loop visits; it is applied to arrays only.\<close>

fun entries :: "jsval \<Rightarrow> jsval list" where
  "entries (Arr xs) = xs"
| "entries v = []"

text \<open>
  Line 26: destructuring \<^verbatim>\<open>req.body\<close> throws when the body is \<^verbatim>\<open>null\<close> or
  \<^verbatim>\<open>undefined\<close>, and reads three properties otherwise.
\<close>

definition destructure :: "jsval \<Rightarrow> thrown + jsval \<times> jsval \<times> jsval" where
  "destructure req_body =
     (if req_body = Undefined \<or> req_body = Null
      then Inl (TypeError (
        ''Cannot destructure property 'objectName' of 'req.body' as it is '' @
        (if req_body = Null then ''null'' else ''undefined'') @ ''.''))
      else
        attempt (property req_body ''objectName'') (\<lambda>objectName.
        attempt (property req_body ''fields'') (\<lambda>fields'.
        attempt (property req_body ''orgAlias'') (\<lambda>orgAlias.
          Inr (objectName, fields', orgAlias)))))"

text \<open>
  Lines 26 to 51. A request that passes goes on with \<^verbatim>\<open>objectName\<close>, \<^verbatim>\<open>fields\<close> and
  \<^verbatim>\<open>orgAlias\<close>.
\<close>

definition validate :: "jsval \<Rightarrow> (jsval \<times> jsval \<times> jsval) flow" where
  "validate req_body =
     (case destructure req_body of
        Inl e \<Rightarrow> Throw e
      | Inr (objectName, fields', orgAlias) \<Rightarrow>
          if \<not> truthy objectName \<or> \<not> truthy fields' \<or> \<not> isArray fields'
          then Return (bad_request ''Object name and fields array are required'')
          else if \<not> truthy orgAlias
          then Return (bad_request ''orgAlias is required'')
          else (case check_fields (entries fields') of
                  Throw e \<Rightarrow> Throw e
                | Return r \<Rightarrow> Return r
                | Next u \<Rightarrow> Next (objectName, fields', orgAlias)))"

text \<open>
  Statements with effects: a result or a thrown error, and the effects made. \<open>seq\<close>
  runs a statement and, unless it threw, the rest of the block.
\<close>

type_synonym 'a run = "(thrown + 'a) \<times> effect list"

definition seq :: "'a run \<Rightarrow> ('a \<Rightarrow> 'b run) \<Rightarrow> 'b run" where
  "seq m f =
     (case m of
        (Inl e, t) \<Rightarrow> (Inl e, t)
      | (Inr x, t) \<Rightarrow> (case f x of (r, t') \<Rightarrow> (r, t @ t')))"

definition compute :: "thrown + 'a \<Rightarrow> 'a run" where
  "compute r = (r, [])"

definition fs_exists :: "world \<Rightarrow> path \<Rightarrow> bool run" where
  "fs_exists w p = (Inr (existsSync w p), [ExistsSync p])"

definition fs_call :: "world \<Rightarrow> effect \<Rightarrow> unit run" where
  "fs_call w c =
     ((case fs_fault w c of Some m \<Rightarrow> Inl (SystemError m) | None \<Rightarrow> Inr ()), [c])"

text \<open>
  Line 89: \<^verbatim>\<open>exec(deployCommand, callback)\<close>. A command that holds a NUL byte is refused
  before any subprocess starts: \<^verbatim>\<open>exec\<close> throws a TypeError (\<^verbatim>\<open>ERR_INVALID_ARG_VALUE\<close>)
  inside the \<^verbatim>\<open>try\<close> block. So does the start of the subprocess where the system
  refuses it. Any other command is started, and its outcome reaches the callback.
\<close>

definition run_exec :: "world \<Rightarrow> string \<Rightarrow> exec_result run" where
  "run_exec w cmd =
     (if CHR 0x00 \<in> set cmd
      then (Inl (TypeError (exec_refusal w cmd)), [])
      else (case spawn_fault w cmd of
              Some m \<Rightarrow> (Inl (SystemError m), [])
            | None \<Rightarrow> (Inr (exec w cmd), [Exec cmd])))"

definition metadataDir :: path where
  "metadataDir = [''./mdapioutput'']"

definition objectDir :: path where
  "objectDir = metadataDir @ [''unpackaged'', ''objects'']"

text \<open>Lines 53 to 82: the staging directory and the three files.\<close>

definition write_metadata :: "world \<Rightarrow> jsval \<Rightarrow> jsval \<Rightarrow> unit run" where
  "write_metadata w objectName fields' =
     seq (compute (to_string objectName)) (\<lambda>logged.
     seq (fs_exists w metadataDir) (\<lambda>found.
     seq (if found then fs_call w (RmSync metadataDir) else compute (Inr ())) (\<lambda>u.
     seq (fs_call w (MkdirSync objectDir)) (\<lambda>u.
     seq (compute (generateObjectMetadata objectName fields')) (\<lambda>objectMetadata.
     seq (compute (to_string objectName)) (\<lambda>n.
     seq (fs_call w (WriteFileSync (objectDir @ [n @ ''__c.object-meta.xml'']) objectMetadata)) (\<lambda>u.
     seq (compute (generateFieldsMetadata fields')) (\<lambda>fieldsMetadata.
     seq (compute (to_string objectName)) (\<lambda>n.
     seq (fs_call w (WriteFileSync (objectDir @ [n @ ''__c.fields-meta.xml'']) fieldsMetadata)) (\<lambda>u.
     seq (compute (generatePackageXml objectName)) (\<lambda>packageXml.
     fs_call w (WriteFileSync (metadataDir @ [''unpackaged'', ''package.xml'']) packageXml))))))))))))"

text \<open>Lines 87 to 106: the deployment command, and the answer made from its outcome.\<close>

definition deployCommand :: "jsval \<Rightarrow> thrown + string" where
  "deployCommand orgAlias =
     attempt (to_string orgAlias) (\<lambda>a. Inr (
       ''sfdx force:mdapi:deploy -d ./mdapioutput/unpackaged -u '' @ a @
       '' --wait 10 --verbose''))"

definition deploy_response :: "exec_result \<Rightarrow> jsval \<Rightarrow> jsval \<Rightarrow> response" where
  "deploy_response res objectName fields' =
     (case exec_error res of
        Some error_message \<Rightarrow>
          \<lparr>status = 500,
           body = Obj [(''error'', Str ''Deployment Failed''),
                       (''message'', Str (if stderr res \<noteq> [] then stderr res else error_message)),
                       (''details'', Str (stdout res))]\<rparr>
      | None \<Rightarrow>
          \<lparr>status = 200,
           body = Obj [(''message'', Str ''Metadata created and deployed successfully''),
                       (''objectName'', objectName),
                       (''fields'', fields'),
                       (''output'', Str (stdout res))]\<rparr>)"

text \<open>Lines 25 to 107: the \<^verbatim>\<open>try\<close> block.\<close>

definition try_block :: "world \<Rightarrow> jsval \<Rightarrow> response run" where
  "try_block w req_body =
     (case validate req_body of
        Throw e \<Rightarrow> (Inl e, [])
      | Return r \<Rightarrow> (Inr r, [])
      | Next (objectName, fields', orgAlias) \<Rightarrow>
          seq (write_metadata w objectName fields') (\<lambda>u.
          seq (compute (deployCommand orgAlias)) (\<lambda>cmd.
          seq (run_exec w cmd) (\<lambda>res.
          compute (Inr (deploy_response res objectName fields'))))))"

text \<open>Lines 108 to 114: the \<^verbatim>\<open>catch\<close> block.\<close>

definition internal_error :: "thrown \<Rightarrow> response" where
  "internal_error e =
     \<lparr>status = 500,
      body = Obj [(''error'', Str ''Internal Server Error''), (''message'', Str (message e))]\<rparr>"

definition create_metadata :: "world \<Rightarrow> jsval \<Rightarrow> response \<times> effect list" where
  "create_metadata w req_body =
     (case try_block w req_body of
        (Inl e, t) \<Rightarrow> (internal_error e, t)
      | (Inr r, t) \<Rightarrow> (r, t))"

section \<open>Reading a generated document\<close>

text \<open>
  The documents are text. To say what a document declares, \<open>elements tag doc\<close> lists, for
  every place where \<^verbatim>\<open><tag>\<close> opens, the text up to the next \<^verbatim>\<open></tag>\<close>.
\<close>

fun after_prefix :: "string \<Rightarrow> string \<Rightarrow> string option" where
  "after_prefix [] s = Some s"
| "after_prefix (p # ps) [] = None"
| "after_prefix (p # ps) (c # cs) = (if p = c then after_prefix ps cs else None)"

fun text_before :: "string \<Rightarrow> string \<Rightarrow> string option" where
  "text_before pat [] = (if pat = [] then Some [] else None)"
| "text_before pat (c # cs) =
     (case after_prefix pat (c # cs) of
        Some rest \<Rightarrow> Some []
      | None \<Rightarrow> map_option ((#) c) (text_before pat cs))"

fun elements :: "string \<Rightarrow> string \<Rightarrow> string list" where
  "elements tag [] = []"
| "elements tag (c # cs) =
     (case after_prefix (''<'' @ tag @ ''>'') (c # cs) of
        None \<Rightarrow> elements tag cs
      | Some rest \<Rightarrow>
          (case text_before (''</'' @ tag @ ''>'') rest of
             None \<Rightarrow> elements tag cs
           | Some txt \<Rightarrow> txt # elements tag cs))"

definition document_elements :: "string \<Rightarrow> thrown + string \<Rightarrow> string list option" where
  "document_elements tag generated =
     (case generated of Inl e \<Rightarrow> None | Inr doc \<Rightarrow> Some (elements tag doc))"

text \<open>The files an effect list writes, in order.\<close>

fun writes :: "effect list \<Rightarrow> (path \<times> string) list" where
  "writes [] = []"
| "writes (WriteFileSync p content # es) = (p, content) # writes es"
| "writes (e # es) = writes es"

text \<open>
  The files a run of lines 68 to 82 writes when no call fails, from the request alone:
  each path and each content is computed from \<^verbatim>\<open>objectName\<close> and \<^verbatim>\<open>fields\<close>.
\<close>

definition staged_files :: "jsval \<Rightarrow> jsval \<Rightarrow> (path \<times> string) list" where
  "staged_files objectName fields' =
     (case to_string objectName of Inl e \<Rightarrow> [] | Inr n \<Rightarrow>
     (case generateObjectMetadata objectName fields' of Inl e \<Rightarrow> [] | Inr objectMetadata \<Rightarrow>
        (objectDir @ [n @ ''__c.object-meta.xml''], objectMetadata) #
     (case generateFieldsMetadata fields' of Inl e \<Rightarrow> [] | Inr fieldsMetadata \<Rightarrow>
        (objectDir @ [n @ ''__c.fields-meta.xml''], fieldsMetadata) #
     (case generatePackageXml objectName of Inl e \<Rightarrow> [] | Inr packageXml \<Rightarrow>
        [(metadataDir @ [''unpackaged'', ''package.xml''], packageXml)]))))"

text \<open>
  Two worlds to run the handler in: one with no staging directory, no failing call and a
  deployment that succeeds; one where the staging directory exists and the deployment
  tool exits with an error.
\<close>

definition deploying_world :: world where
  "deploying_world =
     \<lparr>existsSync = (\<lambda>p. False),
      fs_fault = (\<lambda>c. None),
      exec = (\<lambda>cmd. \<lparr>exec_error = None, stdout = ''Deploy Succeeded.'', stderr = []\<rparr>),
      exec_refusal = (\<lambda>cmd. ''The argument 'command' must be a string without null bytes.''),
      spawn_fault = (\<lambda>cmd. None)\<rparr>"

definition failing_world :: world where
  "failing_world =
     \<lparr>existsSync = (\<lambda>p. True),
      fs_fault = (\<lambda>c. None),
      exec = (\<lambda>cmd. \<lparr>exec_error = Some (''Command failed: '' @ cmd),
                       stdout = ''Deploying...'',
                       stderr = ''ERROR running force:mdapi:deploy''\<rparr>),
      exec_refusal = (\<lambda>cmd. ''The argument 'command' must be a string without null bytes.''),
      spawn_fault = (\<lambda>cmd. None)\<rparr>"

text \<open>The request of \<^verbatim>\<open>test-api.js\<close>, cut down to one field, and the same with no field.\<close>

definition beat_plan :: jsval where
  "beat_plan =
     Obj [(''objectName'', Str ''Beat_Plan''),
          (''orgAlias'', Str ''your-org-alias''),
          (''fields'', Arr [Obj [(''name'', Str ''Location''),
                                 (''label'', Str ''Location''),
                                 (''type'', Str ''Text'')]])]"

definition beat_plan_no_fields :: jsval where
  "beat_plan_no_fields =
     Obj [(''objectName'', Str ''Beat_Plan''),
          (''orgAlias'', Str ''your-org-alias''),
          (''fields'', Arr [])]"

text \<open>A request whose field list holds \<^verbatim>\<open>null\<close>, and a field of type \<^verbatim>\<open>constructor\<close>.\<close>

definition beat_plan_null_field :: jsval where
  "beat_plan_null_field =
     Obj [(''objectName'', Str ''Beat_Plan''),
          (''orgAlias'', Str ''your-org-alias''),
          (''fields'', Arr [Null])]"

definition constructor_field :: jsval where
  "constructor_field =
     Obj [(''name'', Str ''Code''), (''label'', Str ''Code''), (''type'', Str ''constructor'')]"

text \<open>
  A request whose \<^verbatim>\<open>orgAlias\<close> holds a NUL byte (the string a, U+0000, b), and a
  request whose object name holds an opening tag.
\<close>

definition beat_plan_nul_alias :: jsval where
  "beat_plan_nul_alias =
     Obj [(''objectName'', Str ''Beat_Plan''),
          (''orgAlias'', Str [CHR ''a'', CHR 0x00, CHR ''b'']),
          (''fields'', Arr [])]"

definition markup_name :: jsval where
  "markup_name =
     Obj [(''objectName'', Str ''A<members>B''),
          (''orgAlias'', Str ''dev''),
          (''fields'', Arr [])]"

text \<open>A request with one field of each of the seven documented types.\<close>

definition seven_types :: jsval where
  "seven_types =
     Obj [(''objectName'', Str ''Beat_Plan''),
          (''orgAlias'', Str ''your-org-alias''),
          (''fields'', Arr
             [Obj [(''name'', Str ''Location''), (''label'', Str ''Location''), (''type'', Str ''Text'')],
              Obj [(''name'', Str ''Notes''), (''label'', Str ''Notes''), (''type'', Str ''TextArea'')],
              Obj [(''name'', Str ''Date''), (''label'', Str ''Date''), (''type'', Str ''Date'')],
              Obj [(''name'', Str ''Visited''), (''label'', Str ''Visited''), (''type'', Str ''DateTime'')],
              Obj [(''name'', Str ''Stops''), (''label'', Str ''Stops''), (''type'', Str ''Number'')],
              Obj [(''name'', Str ''Is_Active''), (''label'', Str ''Is Active''), (''type'', Str ''Checkbox'')],
              Obj [(''name'', Str ''Priority''), (''label'', Str ''Priority''), (''type'', Str ''Picklist'')]])]"

definition deploy_beat_plan :: string where
  "deploy_beat_plan =
     ''sfdx force:mdapi:deploy -d ./mdapioutput/unpackaged -u your-org-alias --wait 10 --verbose''"

section \<open>Properties of type resolution and of the field fragments\<close>

lemma typeMap_get_own:
  "typeMap_get ''Email'' = Str ''Email''"
  "typeMap_get ''Phone'' = Str ''Phone''"
  "typeMap_get ''URL'' = Str ''Url''"
  "typeMap_get ''Picklist'' = Str ''Picklist''"
  by (simp_all add: typeMap_get_def typeMap_def)

lemma typeMap_get_constructor: "typeMap_get ''constructor'' = NativeFunction ''Object''"
  by (simp add: typeMap_get_def typeMap_def object_prototype_def)

lemma typeMap_get_absent:
  assumes "key \<notin> fst ` set typeMap" and "key \<notin> fst ` set object_prototype"
  shows "typeMap_get key = Undefined"
proof -
  have "map_of typeMap key = None"
    using assms(1) by (simp add: map_of_eq_None_iff)
  moreover have "map_of object_prototype key = None"
    using assms(2) by (simp add: map_of_eq_None_iff)
  ultimately show ?thesis
    by (simp add: typeMap_get_def)
qed

text \<open>
  A type string that names no property of \<^verbatim>\<open>typeMap\<close>, own or inherited, resolves to
  \<^verbatim>\<open>Text\<close>, and its fragment is the one of the \<^verbatim>\<open>Text\<close> case.
\<close>

lemma unknown_type_is_text:
  assumes "key \<notin> fst ` set typeMap" and "key \<notin> fst ` set object_prototype"
  shows "getFieldType (Str key) = Inr (Str ''Text'')"
  by (simp add: getFieldType_def attempt_def typeMap_get_absent [OF assms])

lemma unknown_type_fragment:
  assumes "key \<notin> fst ` set typeMap" and "key \<notin> fst ` set object_prototype"
  shows "fieldElement (Obj [(''name'', Str n), (''label'', Str l), (''type'', Str key)]) =
         Inr (baseXml n l ''Text'' @
              ''\<newline>        <length>255</length>\<newline>'' @
              ''        <required>false</required>\<newline>'' @
              ''    </fields>'')"
  by (simp add: fieldElement_def generateFieldXml_def attempt_def unknown_type_is_text [OF assms])

text \<open>
  Claim C2. The claim: every field type string outside the recognized set resolves to
  \<^verbatim>\<open>Text\<close> and gets the short-text fragment. The type string \<^verbatim>\<open>constructor\<close> is outside
  the recognized set, but \<^verbatim>\<open>typeMap[type]\<close> finds \<^verbatim>\<open>Object.prototype.constructor\<close>,
  which is truthy, so the fallback \<^verbatim>\<open>|| 'Text'\<close> is not taken: the resolved type is the
  function \<^verbatim>\<open>Object\<close>, the \<^verbatim>\<open>switch\<close> takes its \<^verbatim>\<open>default\<close> branch, and the type tag of
  the fragment is the text of that function, not \<^verbatim>\<open>Text\<close>.
\<close>

theorem constructor_type_resolves_to_function:
  "getFieldType (Str ''constructor'') = Inr (NativeFunction ''Object'')
   \<and> fieldElement constructor_field =
       Inr (baseXml ''Code'' ''Code'' ''function Object() { [native code] }'' @
            ''\<newline>        <length>255</length>\<newline>'' @
            ''        <required>false</required>\<newline>'' @
            ''    </fields>'')
   \<and> fieldElement constructor_field \<noteq> generateFieldXml constructor_field (Str ''Text'')"
  by (simp add: getFieldType_def fieldElement_def generateFieldXml_def attempt_def
      typeMap_get_constructor baseXml_def constructor_field_def)



section \<open>Reading the generated documents\<close>

text \<open>
  Rules that read a document one character at a time. They replace the defining
  equations in the simplifier, which would copy the rest of the document into every
  branch of a case distinction.
\<close>

lemma after_prefix_differ: "p \<noteq> c \<Longrightarrow> after_prefix (p # ps) (c # cs) = None"
  by simp

lemma after_prefix_same: "after_prefix (p # ps) (p # cs) = after_prefix ps cs"
  by simp

lemma text_before_differ:
  "p \<noteq> c \<Longrightarrow> text_before (p # ps) (c # cs) = map_option ((#) c) (text_before (p # ps) cs)"
  by simp

lemma text_before_same:
  "text_before (p # ps) (p # cs) =
     (case after_prefix ps cs of
        Some rest \<Rightarrow> Some []
      | None \<Rightarrow> map_option ((#) p) (text_before (p # ps) cs))"
  by simp

lemma elements_differ: "c \<noteq> CHR ''<'' \<Longrightarrow> elements tag (c # cs) = elements tag cs"
  by simp

lemma elements_same:
  "elements tag (CHR ''<'' # cs) =
     (case after_prefix (tag @ ''>'') cs of
        None \<Rightarrow> elements tag cs
      | Some rest \<Rightarrow>
          (case text_before (''</'' @ tag @ ''>'') rest of
             None \<Rightarrow> elements tag cs
           | Some txt \<Rightarrow> txt # elements tag cs))"
  by simp

lemmas reading =
  after_prefix_differ after_prefix_same text_before_differ text_before_same
  elements_differ elements_same

declare after_prefix.simps(3) [simp del]
declare text_before.simps(2) [simp del]
declare elements.simps(2) [simp del]

text \<open>A text without \<^verbatim>\<open><\<close> opens no element and closes none.\<close>

lemma elements_skip:
  "CHR ''<'' \<notin> set n \<Longrightarrow> elements tag (n @ rest) = elements tag rest"
  by (induction n) (auto simp: elements_differ)

lemma text_before_skip:
  "CHR ''<'' \<notin> set n \<Longrightarrow>
     text_before (CHR ''<'' # p) (n @ rest) =
     map_option ((@) n) (text_before (CHR ''<'' # p) rest)"
proof (induction n)
  case Nil
  show ?case by (cases "text_before (CHR ''<'' # p) rest") simp_all
next
  case (Cons c n)
  then show ?case
    by (cases "text_before (CHR ''<'' # p) rest") (simp_all add: text_before_differ)
qed

text \<open>
  Claim C7. For every valid object name the plural label of the generated object
  descriptor is the name followed by \<^verbatim>\<open>s\<close>. A valid name is identifier-safe, so it holds no
  \<^verbatim>\<open><\<close>; the descriptor then has exactly one \<^verbatim>\<open>pluralLabel\<close> element, and its text is the
  name with \<^verbatim>\<open>s\<close> appended, whatever the name is. The label element itself holds the name
  unchanged.
\<close>

theorem plural_label_appends_s:
  assumes "to_string objectName = Inr n" and "CHR ''<'' \<notin> set n"
  shows "document_elements ''pluralLabel'' (generateObjectMetadata objectName fields') =
         Some [n @ ''s'']"
  using assms
  by (simp add: document_elements_def generateObjectMetadata_def attempt_def
      elements_skip text_before_skip reading)

text \<open>Witness for C7: the object name \<^verbatim>\<open>Beat_Plan\<close> of \<^verbatim>\<open>test-api.js\<close>.\<close>

theorem plural_label_appends_s_witness:
  "to_string (Str ''Beat_Plan'') = Inr ''Beat_Plan''
   \<and> CHR ''<'' \<notin> set ''Beat_Plan''
   \<and> document_elements ''pluralLabel'' (generateObjectMetadata (Str ''Beat_Plan'') (Arr [])) =
       Some [''Beat_Plans'']"
  using plural_label_appends_s [of "Str ''Beat_Plan''" "''Beat_Plan''" "Arr []"]
  by simp

text \<open>
  Claim C9, as amended. The manifest template inserts the object name as it is. For
  every object name that holds no \<^verbatim>\<open><\<close> (every identifier-safe name is one) the
  deployment manifest declares exactly one member, the object name followed by \<^verbatim>\<open>__c\<close>,
  under the one type category \<^verbatim>\<open>CustomObject\<close>, with the schema version 58.0: the manifest
  has one \<^verbatim>\<open>types\<close> element, in it one \<^verbatim>\<open>members\<close> element and one \<^verbatim>\<open>name\<close> element, and
  one \<^verbatim>\<open>version\<close> element.
\<close>

theorem manifest_declares_one_member:
  assumes "to_string objectName = Inr n" and "CHR ''<'' \<notin> set n"
  shows "document_elements ''members'' (generatePackageXml objectName) = Some [n @ ''__c'']
       \<and> document_elements ''name'' (generatePackageXml objectName) = Some [''CustomObject'']
       \<and> document_elements ''version'' (generatePackageXml objectName) = Some [''58.0'']
       \<and> map_option length (document_elements ''types'' (generatePackageXml objectName)) = Some 1"
  using assms
  by (simp add: document_elements_def generatePackageXml_def attempt_def
      elements_skip text_before_skip reading)

text \<open>Witness for C9: the object name \<^verbatim>\<open>Beat_Plan\<close>.\<close>

theorem manifest_declares_one_member_witness:
  "to_string (Str ''Beat_Plan'') = Inr ''Beat_Plan''
   \<and> CHR ''<'' \<notin> set ''Beat_Plan''
   \<and> document_elements ''members'' (generatePackageXml (Str ''Beat_Plan'')) = Some [''Beat_Plan__c'']
   \<and> document_elements ''name'' (generatePackageXml (Str ''Beat_Plan'')) = Some [''CustomObject'']
   \<and> document_elements ''version'' (generatePackageXml (Str ''Beat_Plan'')) = Some [''58.0'']"
  using manifest_declares_one_member [of "Str ''Beat_Plan''" "''Beat_Plan''"]
  by simp

text \<open>
  Counterexample to C9 as stated: the object name \<^verbatim>\<open>A<members>B\<close> passes the validator,
  the handler stages the three files for it, and the manifest it writes opens two
  \<^verbatim>\<open>members\<close> elements where the claim says exactly one.
\<close>

theorem manifest_of_name_with_markup:
  "validate markup_name = Next (Str ''A<members>B'', Arr [], Str ''dev'')
   \<and> status (fst (create_metadata deploying_world markup_name)) = 200
   \<and> map fst (writes (snd (create_metadata deploying_world markup_name))) =
       [objectDir @ [''A<members>B__c.object-meta.xml''],
        objectDir @ [''A<members>B__c.fields-meta.xml''],
        metadataDir @ [''unpackaged'', ''package.xml'']]
   \<and> map (elements ''members'') (map snd (writes (snd (create_metadata deploying_world markup_name)))) =
       [[], [], [''A<members>B__c'', ''B__c'']]
   \<and> document_elements ''members'' (generatePackageXml (Str ''A<members>B'')) =
       Some [''A<members>B__c'', ''B__c'']"
  by (simp add: create_metadata_def try_block_def validate_def destructure_def
      write_metadata_def seq_def compute_def fs_exists_def fs_call_def run_exec_def
      deploying_world_def deployCommand_def deploy_response_def generateObjectMetadata_def
      generateFieldsMetadata_def generatePackageXml_def attempt_def markup_name_def
      document_elements_def reading)

text \<open>
  Claim C8. A field whose type resolves to \<^verbatim>\<open>Picklist\<close> gets a fragment that ends with the
  fixed value-set block: one \<^verbatim>\<open>valueSet\<close> element, restricted, with exactly two \<^verbatim>\<open>value\<close>
  elements, named \<^verbatim>\<open>Option 1\<close> and \<^verbatim>\<open>Option 2\<close>, each with \<^verbatim>\<open>default\<close> false.
\<close>

theorem picklist_has_two_placeholder_options:
  assumes "property field ''type'' = Inr type"
    and "getFieldType type = Inr (Str ''Picklist'')"
    and "fieldElement field = Inr fragment"
  shows "(\<exists>n l. fragment = baseXml n l ''Picklist'' @ picklist_tail)
       \<and> length (elements ''valueSet'' picklist_tail) = 1
       \<and> elements ''restricted'' picklist_tail = [''true'']
       \<and> length (elements ''value'' picklist_tail) = 2
       \<and> map (elements ''fullName'') (elements ''value'' picklist_tail) =
           [[''Option 1''], [''Option 2'']]
       \<and> map (elements ''default'') (elements ''value'' picklist_tail) =
           [[''false''], [''false'']]"
proof -
  have "\<exists>n l. fragment = baseXml n l ''Picklist'' @ picklist_tail"
    using assms
    by (auto simp: fieldElement_def generateFieldXml_def attempt_def split: sum.splits)
  moreover have "length (elements ''valueSet'' picklist_tail) = 1"
    by (simp add: picklist_tail_def reading)
  moreover have "elements ''restricted'' picklist_tail = [''true'']"
    by (simp add: picklist_tail_def reading)
  moreover have "length (elements ''value'' picklist_tail) = 2"
    by (simp add: picklist_tail_def reading)
  moreover have "map (elements ''fullName'') (elements ''value'' picklist_tail) =
      [[''Option 1''], [''Option 2'']]"
    by (simp add: picklist_tail_def reading)
  moreover have "map (elements ''default'') (elements ''value'' picklist_tail) =
      [[''false''], [''false'']]"
    by (simp add: picklist_tail_def reading)
  ultimately show ?thesis by blast
qed

text \<open>Witness for C8: the field \<^verbatim>\<open>Priority\<close> of \<^verbatim>\<open>test-api.js\<close>.\<close>

theorem picklist_has_two_placeholder_options_witness:
  "property (Obj [(''name'', Str ''Priority''), (''label'', Str ''Priority''),
                  (''type'', Str ''Picklist'')]) ''type'' = Inr (Str ''Picklist'')
   \<and> getFieldType (Str ''Picklist'') = Inr (Str ''Picklist'')
   \<and> fieldElement (Obj [(''name'', Str ''Priority''), (''label'', Str ''Priority''),
                        (''type'', Str ''Picklist'')]) =
       Inr (baseXml ''Priority'' ''Priority'' ''Picklist'' @ picklist_tail)
   \<and> length (elements ''value'' picklist_tail) = 2
   \<and> map (elements ''fullName'') (elements ''value'' picklist_tail) =
       [[''Option 1''], [''Option 2'']]"
proof -
  let ?field = "Obj [(''name'', Str ''Priority''), (''label'', Str ''Priority''),
                     (''type'', Str ''Picklist'')]"
  have a: "property ?field ''type'' = Inr (Str ''Picklist'')"
    by simp
  have b: "getFieldType (Str ''Picklist'') = Inr (Str ''Picklist'')"
    by (simp add: getFieldType_def attempt_def typeMap_get_own)
  have c: "fieldElement ?field = Inr (baseXml ''Priority'' ''Priority'' ''Picklist'' @ picklist_tail)"
    by (simp add: fieldElement_def generateFieldXml_def attempt_def b)
  from picklist_has_two_placeholder_options [OF a b c] a b c show ?thesis
    by simp
qed

section \<open>Properties of the handler\<close>

lemma writes_append: "writes (xs @ ys) = writes xs @ writes ys"
  by (induction xs rule: writes.induct) simp_all

lemma write_metadata_no_exec: "Exec c \<notin> set (snd (write_metadata w n f))"
  unfolding write_metadata_def
  by (auto simp: seq_def compute_def fs_call_def fs_exists_def
      split: sum.splits option.splits prod.splits if_splits)

lemma write_metadata_starts:
  "to_string n = Inr s \<Longrightarrow> ExistsSync metadataDir \<in> set (snd (write_metadata w n f))"
  unfolding write_metadata_def
  by (auto simp: seq_def compute_def fs_call_def fs_exists_def
      split: sum.splits option.splits prod.splits if_splits)

lemma write_metadata_writes:
  "prefix (writes (snd (write_metadata w n f))) (staged_files n f)"
  unfolding write_metadata_def staged_files_def
  by (auto simp: seq_def compute_def fs_call_def fs_exists_def
      split: sum.splits option.splits prod.splits if_splits)

lemma write_metadata_done:
  "fst (write_metadata w n f) = Inr u \<Longrightarrow>
     writes (snd (write_metadata w n f)) = staged_files n f"
  unfolding write_metadata_def staged_files_def
  by (auto simp: seq_def compute_def fs_call_def fs_exists_def
      split: sum.splits option.splits prod.splits if_splits)

text \<open>The handler, by the outcome of validation.\<close>

lemma create_metadata_rejected:
  "validate b = Throw e \<Longrightarrow> create_metadata w b = (internal_error e, [])"
  "validate b = Return r \<Longrightarrow> create_metadata w b = (r, [])"
  by (simp_all add: create_metadata_def try_block_def)

lemma create_metadata_passed:
  assumes "validate b = Next (objectName, fields', orgAlias)"
  shows "create_metadata w b =
     (case write_metadata w objectName fields' of
        (Inl e, t) \<Rightarrow> (internal_error e, t)
      | (Inr u, t) \<Rightarrow>
          (case deployCommand orgAlias of
             Inl e \<Rightarrow> (internal_error e, t)
           | Inr cmd \<Rightarrow>
               if CHR 0x00 \<in> set cmd
               then (internal_error (TypeError (exec_refusal w cmd)), t)
               else (case spawn_fault w cmd of
                       Some m \<Rightarrow> (internal_error (SystemError m), t)
                     | None \<Rightarrow>
                         (deploy_response (exec w cmd) objectName fields', t @ [Exec cmd]))))"
  using assms
  by (auto simp: create_metadata_def try_block_def seq_def compute_def run_exec_def
      split: prod.splits sum.splits option.splits)

lemma reached_exec:
  assumes "validate b = Next (objectName, fields', orgAlias)"
    and "Exec cmd \<in> set (snd (create_metadata w b))"
  shows "fst (write_metadata w objectName fields') = Inr ()"
    and "deployCommand orgAlias = Inr cmd"
    and "create_metadata w b =
           (deploy_response (exec w cmd) objectName fields',
            snd (write_metadata w objectName fields') @ [Exec cmd])"
    and "CHR 0x00 \<notin> set cmd"
    and "spawn_fault w cmd = None"
  using assms(2) write_metadata_no_exec [of _ w objectName fields']
  unfolding create_metadata_passed [OF assms(1)]
  by (auto split: prod.splits sum.splits if_splits option.splits)

text \<open>A command that holds a NUL byte is not started: the \<^verbatim>\<open>catch\<close> block answers.\<close>

lemma refused_command:
  assumes "validate b = Next (objectName, fields', orgAlias)"
    and "fst (write_metadata w objectName fields') = Inr ()"
    and "deployCommand orgAlias = Inr cmd"
    and "CHR 0x00 \<in> set cmd"
  shows "try_block w b =
           (Inl (TypeError (exec_refusal w cmd)), snd (write_metadata w objectName fields'))"
  using assms
  by (auto simp: try_block_def seq_def compute_def run_exec_def split: prod.splits sum.splits)

lemma destructure_read:
  assumes "property b ''objectName'' = Inr objectName"
    and "property b ''fields'' = Inr fields'"
    and "property b ''orgAlias'' = Inr orgAlias"
  shows "destructure b = Inr (objectName, fields', orgAlias)"
  using assms by (cases b) (simp_all add: destructure_def attempt_def)

text \<open>
  The checks of the validator in their order, for a body whose properties can be read:
  the first \<^verbatim>\<open>if\<close> covers the object name and the field list, the second the
  \<^verbatim>\<open>orgAlias\<close>, and only then the entries of the field list are visited.
\<close>

lemma validation_order:
  assumes "property b ''objectName'' = Inr objectName"
    and "property b ''fields'' = Inr fields'"
    and "property b ''orgAlias'' = Inr orgAlias"
  shows "validate b =
     (if \<not> truthy objectName \<or> \<not> truthy fields' \<or> \<not> isArray fields'
      then Return (bad_request ''Object name and fields array are required'')
      else if \<not> truthy orgAlias
      then Return (bad_request ''orgAlias is required'')
      else (case check_fields (entries fields') of
              Throw e \<Rightarrow> Throw e
            | Return r \<Rightarrow> Return r
            | Next u \<Rightarrow> Next (objectName, fields', orgAlias)))"
  by (simp add: validate_def destructure_read [OF assms])

lemma missing_orgAlias_message:
  assumes "property b ''objectName'' = Inr objectName" and "truthy objectName"
    and "property b ''fields'' = Inr (Arr xs)"
    and "property b ''orgAlias'' = Inr orgAlias" and "\<not> truthy orgAlias"
  shows "validate b = Return (bad_request ''orgAlias is required'')"
  using assms by (simp add: validation_order [of b objectName "Arr xs" orgAlias])

lemma check_fields_first_invalid:
  assumes "\<forall>x \<in> set xs. invalid_field x = Inr False" and "invalid_field y = Inr True"
  shows "check_fields (xs @ y # ys) =
         Return (bad_request ''Each field must have name, label, and type properties'')"
  using assms by (induction xs) simp_all

lemma check_fields_all_valid:
  "\<forall>x \<in> set xs. invalid_field x = Inr False \<Longrightarrow> check_fields xs = Next ()"
  by (induction xs) simp_all

lemma check_fields_status: "check_fields xs = Return r \<Longrightarrow> status r = 400"
  by (induction xs) (auto simp: bad_request_def split: sum.splits if_splits)

lemma validate_status: "validate b = Return r \<Longrightarrow> status r = 400"
  by (auto simp: validate_def bad_request_def
      split: sum.splits prod.splits if_splits flow.splits dest: check_fields_status)

text \<open>
  A request that does not pass validation leaves no effect, and the status 400 is only
  ever answered by the validator.
\<close>

lemma rejected_no_effects:
  "\<forall>v. validate b \<noteq> Next v \<Longrightarrow> snd (create_metadata w b) = []"
  by (cases "validate b") (auto simp: create_metadata_rejected)

lemma status_400_no_effects:
  assumes "status (fst (create_metadata w b)) = 400"
  shows "snd (create_metadata w b) = [] \<and> (\<exists>r. validate b = Return r)"
proof (cases "validate b")
  case (Throw e)
  with assms show ?thesis
    by (simp add: create_metadata_rejected internal_error_def)
next
  case (Return r)
  then show ?thesis
    by (simp add: create_metadata_rejected)
next
  case (Next v)
  obtain n f a where v: "v = (n, f, a)"
    by (cases v)
  from assms show ?thesis
    unfolding create_metadata_passed [OF Next [unfolded v]]
    by (auto simp: internal_error_def deploy_response_def
        split: prod.splits sum.splits option.splits if_splits)
qed

text \<open>
  Claim C1, as amended. The validator does not look at the length of the field list: a
  body whose \<^verbatim>\<open>objectName\<close> and \<^verbatim>\<open>orgAlias\<close> are non-empty strings and whose \<^verbatim>\<open>fields\<close> is
  the empty array passes validation, is not answered with 400, and goes on to the staging
  directory and to descriptor generation with the empty field list.
\<close>

theorem empty_field_list_passes_validation:
  assumes "property b ''objectName'' = Inr (Str n)" and "n \<noteq> []"
    and "property b ''fields'' = Inr (Arr [])"
    and "property b ''orgAlias'' = Inr (Str a)" and "a \<noteq> []"
  shows "validate b = Next (Str n, Arr [], Str a)
       \<and> status (fst (create_metadata w b)) \<noteq> 400
       \<and> ExistsSync metadataDir \<in> set (snd (create_metadata w b))"
proof -
  have passed: "validate b = Next (Str n, Arr [], Str a)"
    using assms by (simp add: validation_order [of b "Str n" "Arr []" "Str a"])
  have "status (fst (create_metadata w b)) \<noteq> 400"
    using status_400_no_effects [of w b] passed by auto
  moreover have "ExistsSync metadataDir \<in> set (snd (write_metadata w (Str n) (Arr [])))"
    by (rule write_metadata_starts [of _ n]) simp
  then have "ExistsSync metadataDir \<in> set (snd (create_metadata w b))"
    unfolding create_metadata_passed [OF passed]
    by (auto split: prod.splits sum.splits option.splits)
  ultimately show ?thesis
    using passed by simp
qed

text \<open>Witness for the amended C1: the request \<^verbatim>\<open>Beat_Plan\<close> with an empty field list.\<close>

theorem empty_field_list_passes_validation_witness:
  "property beat_plan_no_fields ''objectName'' = Inr (Str ''Beat_Plan'')
   \<and> ''Beat_Plan'' \<noteq> []
   \<and> property beat_plan_no_fields ''fields'' = Inr (Arr [])
   \<and> property beat_plan_no_fields ''orgAlias'' = Inr (Str ''your-org-alias'')
   \<and> ''your-org-alias'' \<noteq> []
   \<and> validate beat_plan_no_fields = Next (Str ''Beat_Plan'', Arr [], Str ''your-org-alias'')
   \<and> status (fst (create_metadata failing_world beat_plan_no_fields)) \<noteq> 400"
  using empty_field_list_passes_validation
    [of beat_plan_no_fields "''Beat_Plan''" "''your-org-alias''" failing_world]
  by (simp add: beat_plan_no_fields_def)

text \<open>
  Counterexample to C1 as stated: the request \<^verbatim>\<open>Beat_Plan\<close> with an empty field list
  passes the validator, and where the deployment succeeds it is answered with 200.
\<close>

theorem empty_field_list_answered_200:
  "validate beat_plan_no_fields = Next (Str ''Beat_Plan'', Arr [], Str ''your-org-alias'')
   \<and> status (fst (create_metadata deploying_world beat_plan_no_fields)) = 200"
  by (simp add: create_metadata_def try_block_def validate_def destructure_def write_metadata_def seq_def
      compute_def fs_exists_def fs_call_def run_exec_def deploying_world_def deployCommand_def
      deploy_response_def generateObjectMetadata_def generateFieldsMetadata_def
      generatePackageXml_def attempt_def beat_plan_no_fields_def)

text \<open>
  Claim C3. The claim: the checks run in the order object name, field list,
  \<^verbatim>\<open>orgAlias\<close>, field entries, and the first failing check answers 400 with a descriptive
  message. For a field list that holds \<^verbatim>\<open>null\<close> the check of the entries does not answer:
  reading \<^verbatim>\<open>field.name\<close> throws a TypeError.
\<close>

theorem null_field_entry_throws:
  "validate beat_plan_null_field =
     Throw (TypeError (''Cannot read properties of null (reading '' @ [CHR 0x27] @ ''name'' @
                       [CHR 0x27] @ '')''))"
  by (simp add: validate_def destructure_def invalid_field_def attempt_def beat_plan_null_field_def)

text \<open>
  Witness for C3: the request passes the checks of the object name, the field list and
  the \<^verbatim>\<open>orgAlias\<close>, and the check of its entries gives no 400 answer.
\<close>

theorem null_field_entry_throws_witness:
  "truthy (Str ''Beat_Plan'') \<and> truthy (Arr [Null]) \<and> isArray (Arr [Null])
   \<and> truthy (Str ''your-org-alias'')
   \<and> validate beat_plan_null_field \<noteq>
       Return (bad_request ''Each field must have name, label, and type properties'')"
  using null_field_entry_throws by simp

text \<open>
  Claim C4. The claim: every request that fails validation is answered with 400 and
  leaves the file system alone. The request whose field list holds \<^verbatim>\<open>null\<close> leaves no
  effect, but the error thrown by the field check reaches the \<^verbatim>\<open>catch\<close> block, and the
  answer is 500 \<^verbatim>\<open>Internal Server Error\<close>.
\<close>

theorem null_field_entry_answered_500:
  "create_metadata w beat_plan_null_field =
     (\<lparr>status = 500,
       body = Obj [(''error'', Str ''Internal Server Error''),
                   (''message'', Str (''Cannot read properties of null (reading '' @
                                       [CHR 0x27] @ ''name'' @ [CHR 0x27] @ '')''))]\<rparr>,
      [])"
  by (simp add: create_metadata_def try_block_def validate_def destructure_def invalid_field_def attempt_def
      internal_error_def beat_plan_null_field_def)

text \<open>
  Witness for C4: the same request where the deployment would succeed; the answer is 500
  and no effect is made.
\<close>

theorem null_field_entry_answered_500_witness:
  "status (fst (create_metadata deploying_world beat_plan_null_field)) = 500
   \<and> snd (create_metadata deploying_world beat_plan_null_field) = []"
  using null_field_entry_answered_500 [of deploying_world] by simp

text \<open>
  Claim C5. Where the handler started the deployment subprocess: if the subprocess ends
  without error the answer is 200 with the object name, the field list and the captured
  standard output; if it ends with an error the answer is 500 with the captured standard
  error, or the message of the error where standard error is empty, and the standard
  output. Where the \<^verbatim>\<open>try\<close> block throws, the answer is 500 with the message of the
  error; this is so in particular where \<^verbatim>\<open>exec\<close> refuses the command, and then no
  subprocess was started. The validator answers with 400 only. The bodies are the values
  handed to \<^verbatim>\<open>res.json\<close>.
\<close>

theorem deployment_outcome:
  "(\<forall>objectName fields' orgAlias cmd.
      validate b = Next (objectName, fields', orgAlias)
      \<and> Exec cmd \<in> set (snd (create_metadata w b)) \<longrightarrow>
        (exec_error (exec w cmd) = None \<longrightarrow>
           fst (create_metadata w b) =
             \<lparr>status = 200,
              body = Obj [(''message'', Str ''Metadata created and deployed successfully''),
                          (''objectName'', objectName),
                          (''fields'', fields'),
                          (''output'', Str (stdout (exec w cmd)))]\<rparr>)
        \<and> (\<forall>m. exec_error (exec w cmd) = Some m \<longrightarrow>
             fst (create_metadata w b) =
               \<lparr>status = 500,
                body = Obj [(''error'', Str ''Deployment Failed''),
                            (''message'', Str (if stderr (exec w cmd) \<noteq> []
                                               then stderr (exec w cmd) else m)),
                            (''details'', Str (stdout (exec w cmd)))]\<rparr>))
   \<and> (\<forall>e. fst (try_block w b) = Inl e \<longrightarrow>
         fst (create_metadata w b) =
           \<lparr>status = 500,
            body = Obj [(''error'', Str ''Internal Server Error''),
                        (''message'', Str (message e))]\<rparr>)
   \<and> (\<forall>objectName fields' orgAlias cmd.
         validate b = Next (objectName, fields', orgAlias)
         \<and> fst (write_metadata w objectName fields') = Inr ()
         \<and> deployCommand orgAlias = Inr cmd
         \<and> CHR 0x00 \<in> set cmd \<longrightarrow>
           fst (try_block w b) = Inl (TypeError (exec_refusal w cmd))
           \<and> (\<forall>c. Exec c \<notin> set (snd (create_metadata w b))))
   \<and> (\<forall>r. validate b = Return r \<longrightarrow> fst (create_metadata w b) = r \<and> status r = 400)"
proof (intro conjI allI impI)
  fix objectName fields' orgAlias cmd
  assume a: "validate b = Next (objectName, fields', orgAlias)
             \<and> Exec cmd \<in> set (snd (create_metadata w b))"
  then have run: "create_metadata w b =
      (deploy_response (exec w cmd) objectName fields',
       snd (write_metadata w objectName fields') @ [Exec cmd])"
    by (intro reached_exec(3)) simp_all
  {
    assume "exec_error (exec w cmd) = None"
    then show "fst (create_metadata w b) =
        \<lparr>status = 200,
         body = Obj [(''message'', Str ''Metadata created and deployed successfully''),
                     (''objectName'', objectName),
                     (''fields'', fields'),
                     (''output'', Str (stdout (exec w cmd)))]\<rparr>"
      by (simp add: run deploy_response_def)
  }
  {
    fix m
    assume "exec_error (exec w cmd) = Some m"
    then show "fst (create_metadata w b) =
        \<lparr>status = 500,
         body = Obj [(''error'', Str ''Deployment Failed''),
                     (''message'', Str (if stderr (exec w cmd) \<noteq> []
                                        then stderr (exec w cmd) else m)),
                     (''details'', Str (stdout (exec w cmd)))]\<rparr>"
      by (simp add: run deploy_response_def)
  }
next
  fix e
  assume "fst (try_block w b) = Inl e"
  then show "fst (create_metadata w b) =
      \<lparr>status = 500,
       body = Obj [(''error'', Str ''Internal Server Error''), (''message'', Str (message e))]\<rparr>"
    by (auto simp: create_metadata_def internal_error_def split: prod.splits)
next
  fix objectName fields' orgAlias cmd
  assume a: "validate b = Next (objectName, fields', orgAlias)
             \<and> fst (write_metadata w objectName fields') = Inr ()
             \<and> deployCommand orgAlias = Inr cmd
             \<and> CHR 0x00 \<in> set cmd"
  have refused: "try_block w b =
      (Inl (TypeError (exec_refusal w cmd)), snd (write_metadata w objectName fields'))"
    using a refused_command [of b objectName fields' orgAlias w cmd] by blast
  show "fst (try_block w b) = Inl (TypeError (exec_refusal w cmd))"
    by (simp add: refused)
  fix c
  show "Exec c \<notin> set (snd (create_metadata w b))"
    using write_metadata_no_exec [of c w objectName fields']
    by (simp add: create_metadata_def refused)
next
  fix r
  assume "validate b = Return r"
  then show "fst (create_metadata w b) = r" and "status r = 400"
    by (simp_all add: create_metadata_rejected validate_status)
qed

text \<open>
  Witness for C5: the request of \<^verbatim>\<open>test-api.js\<close> where the deployment succeeds and where
  it fails, the request with a \<^verbatim>\<open>null\<close> field, whose check throws, the request whose
  \<^verbatim>\<open>orgAlias\<close> holds a NUL byte, whose command \<^verbatim>\<open>exec\<close> refuses, and the request with no
  \<^verbatim>\<open>orgAlias\<close>, which the validator answers.
\<close>

theorem deployment_outcome_witness:
  "validate beat_plan = Next (Str ''Beat_Plan'',
       Arr [Obj [(''name'', Str ''Location''), (''label'', Str ''Location''),
                 (''type'', Str ''Text'')]],
       Str ''your-org-alias'')
   \<and> Exec deploy_beat_plan \<in> set (snd (create_metadata deploying_world beat_plan))
   \<and> exec_error (exec deploying_world deploy_beat_plan) = None
   \<and> status (fst (create_metadata deploying_world beat_plan)) = 200
   \<and> Exec deploy_beat_plan \<in> set (snd (create_metadata failing_world beat_plan))
   \<and> exec_error (exec failing_world deploy_beat_plan) =
       Some (''Command failed: '' @ deploy_beat_plan)
   \<and> fst (create_metadata failing_world beat_plan) =
       \<lparr>status = 500,
        body = Obj [(''error'', Str ''Deployment Failed''),
                    (''message'', Str ''ERROR running force:mdapi:deploy''),
                    (''details'', Str ''Deploying...'')]\<rparr>
   \<and> fst (try_block deploying_world beat_plan_null_field) =
       Inl (TypeError (''Cannot read properties of null (reading '' @ [CHR 0x27] @ ''name'' @
                       [CHR 0x27] @ '')''))
   \<and> status (fst (create_metadata deploying_world beat_plan_null_field)) = 500
   \<and> validate beat_plan_nul_alias =
       Next (Str ''Beat_Plan'', Arr [], Str [CHR ''a'', CHR 0x00, CHR ''b''])
   \<and> fst (write_metadata deploying_world (Str ''Beat_Plan'') (Arr [])) = Inr ()
   \<and> deployCommand (Str [CHR ''a'', CHR 0x00, CHR ''b'']) =
       Inr (''sfdx force:mdapi:deploy -d ./mdapioutput/unpackaged -u '' @
            [CHR ''a'', CHR 0x00, CHR ''b''] @ '' --wait 10 --verbose'')
   \<and> status (fst (create_metadata deploying_world beat_plan_nul_alias)) = 500
   \<and> Exec (''sfdx force:mdapi:deploy -d ./mdapioutput/unpackaged -u '' @
            [CHR ''a'', CHR 0x00, CHR ''b''] @ '' --wait 10 --verbose'')
       \<notin> set (snd (create_metadata deploying_world beat_plan_nul_alias))
   \<and> validate (Obj [(''objectName'', Str ''Beat_Plan''), (''fields'', Arr [])]) =
       Return (bad_request ''orgAlias is required'')
   \<and> status (fst (create_metadata deploying_world
                    (Obj [(''objectName'', Str ''Beat_Plan''), (''fields'', Arr [])]))) = 400"
proof -
  let ?fields = "Arr [Obj [(''name'', Str ''Location''), (''label'', Str ''Location''),
                          (''type'', Str ''Text'')]]"
  let ?no_alias = "Obj [(''objectName'', Str ''Beat_Plan''), (''fields'', Arr [])]"
  let ?org = "[CHR ''a'', CHR 0x00, CHR ''b'']"
  let ?refused = "''sfdx force:mdapi:deploy -d ./mdapioutput/unpackaged -u '' @ ?org @
                  '' --wait 10 --verbose''"
  have passed: "validate beat_plan = Next (Str ''Beat_Plan'', ?fields, Str ''your-org-alias'')"
    by (simp add: validate_def destructure_def invalid_field_def attempt_def beat_plan_def)
  have written: "fst (write_metadata w (Str ''Beat_Plan'') ?fields) = Inr ()"
    if "fs_fault w = (\<lambda>c. None)" for w
    using that
    by (simp add: write_metadata_def seq_def compute_def fs_exists_def fs_call_def
        generateObjectMetadata_def generateFieldsMetadata_def generatePackageXml_def
        fieldElement_def getFieldType_def generateFieldXml_def typeMap_get_def typeMap_def
        attempt_def split: prod.splits)
  have command: "deployCommand (Str ''your-org-alias'') = Inr deploy_beat_plan"
    by (simp add: deployCommand_def attempt_def deploy_beat_plan_def)
  have clean: "CHR 0x00 \<notin> set deploy_beat_plan"
    by (simp add: deploy_beat_plan_def)
  have launched: "Exec deploy_beat_plan \<in> set (snd (create_metadata w beat_plan))"
    if "fs_fault w = (\<lambda>c. None)" and "spawn_fault w = (\<lambda>c. None)" for w
    using written [OF that(1)] clean that(2)
    unfolding create_metadata_passed [OF passed]
    by (auto simp: command split: prod.splits sum.splits)
  have l1: "Exec deploy_beat_plan \<in> set (snd (create_metadata deploying_world beat_plan))"
    by (rule launched) (simp_all add: deploying_world_def)
  have l2: "Exec deploy_beat_plan \<in> set (snd (create_metadata failing_world beat_plan))"
    by (rule launched) (simp_all add: failing_world_def)
  have e1: "exec_error (exec deploying_world deploy_beat_plan) = None"
    by (simp add: deploying_world_def)
  have e2: "exec_error (exec failing_world deploy_beat_plan) =
      Some (''Command failed: '' @ deploy_beat_plan)"
    by (simp add: failing_world_def)
  have thrown: "fst (try_block deploying_world beat_plan_null_field) =
      Inl (TypeError (''Cannot read properties of null (reading '' @ [CHR 0x27] @ ''name'' @
                      [CHR 0x27] @ '')''))"
    by (simp add: try_block_def validate_def destructure_def invalid_field_def attempt_def
        beat_plan_null_field_def)
  have answered: "validate ?no_alias = Return (bad_request ''orgAlias is required'')"
    by (simp add: validate_def destructure_def attempt_def)
  have nul_passed: "validate beat_plan_nul_alias = Next (Str ''Beat_Plan'', Arr [], Str ?org)"
    by (simp add: validate_def destructure_def attempt_def beat_plan_nul_alias_def)
  have nul_written: "fst (write_metadata deploying_world (Str ''Beat_Plan'') (Arr [])) = Inr ()"
    by (simp add: write_metadata_def seq_def compute_def fs_exists_def fs_call_def
        generateObjectMetadata_def generateFieldsMetadata_def generatePackageXml_def
        attempt_def deploying_world_def split: prod.splits)
  have nul_command: "deployCommand (Str ?org) = Inr ?refused"
    by (simp add: deployCommand_def attempt_def)
  have nul_byte: "CHR 0x00 \<in> set ?refused"
    by simp
  from deployment_outcome [of beat_plan deploying_world] passed l1 e1
  have r1: "status (fst (create_metadata deploying_world beat_plan)) = 200"
    by simp
  from deployment_outcome [of beat_plan failing_world] passed l2 e2
  have "fst (create_metadata failing_world beat_plan) =
      \<lparr>status = 500,
       body = Obj [(''error'', Str ''Deployment Failed''),
                   (''message'', Str (if stderr (exec failing_world deploy_beat_plan) \<noteq> []
                                      then stderr (exec failing_world deploy_beat_plan)
                                      else ''Command failed: '' @ deploy_beat_plan)),
                   (''details'', Str (stdout (exec failing_world deploy_beat_plan)))]\<rparr>"
    by blast
  moreover have "stderr (exec failing_world deploy_beat_plan) = ''ERROR running force:mdapi:deploy''"
    and "stdout (exec failing_world deploy_beat_plan) = ''Deploying...''"
    by (simp_all add: failing_world_def)
  ultimately have r2: "fst (create_metadata failing_world beat_plan) =
      \<lparr>status = 500,
       body = Obj [(''error'', Str ''Deployment Failed''),
                   (''message'', Str ''ERROR running force:mdapi:deploy''),
                   (''details'', Str ''Deploying...'')]\<rparr>"
    by simp
  from deployment_outcome [of beat_plan_null_field deploying_world] thrown
  have r3: "status (fst (create_metadata deploying_world beat_plan_null_field)) = 500"
    by simp
  from deployment_outcome [of ?no_alias deploying_world] answered
  have r4: "status (fst (create_metadata deploying_world ?no_alias)) = 400"
    by simp
  from deployment_outcome [of beat_plan_nul_alias deploying_world]
    nul_passed nul_written nul_command nul_byte
  have refused: "fst (try_block deploying_world beat_plan_nul_alias) =
        Inl (TypeError (exec_refusal deploying_world ?refused))"
    and r6: "Exec ?refused \<notin> set (snd (create_metadata deploying_world beat_plan_nul_alias))"
    by blast+
  from deployment_outcome [of beat_plan_nul_alias deploying_world] refused
  have r5: "status (fst (create_metadata deploying_world beat_plan_nul_alias)) = 500"
    by simp
  from passed l1 e1 r1 l2 e2 r2 thrown r3 nul_passed nul_written nul_command r5 r6 answered r4
  show ?thesis
    by simp
qed

text \<open>The files of a run are files of \<open>staged_files\<close>, in the same order.\<close>

lemma writes_of_run:
  assumes "validate b = Next (objectName, fields', orgAlias)"
  shows "writes (snd (create_metadata w b)) = writes (snd (write_metadata w objectName fields'))"
  unfolding create_metadata_passed [OF assms]
  by (auto simp: writes_append split: prod.splits sum.splits option.splits)

text \<open>
  Claim C6. Descriptor generation is deterministic: the three documents are computed
  from the request alone. Two runs of the handler on the same request, in whatever state
  of the file system and with whatever outcome of the subprocess, write the same
  documents to the same paths as far as each run gets, and two runs that both reach the
  deployment have written identical files and launch the same command.
\<close>

theorem generation_deterministic:
  "(prefix (writes (snd (create_metadata w1 b))) (writes (snd (create_metadata w2 b)))
    \<or> prefix (writes (snd (create_metadata w2 b))) (writes (snd (create_metadata w1 b))))
   \<and> (\<forall>c1 c2. Exec c1 \<in> set (snd (create_metadata w1 b))
               \<and> Exec c2 \<in> set (snd (create_metadata w2 b)) \<longrightarrow>
         writes (snd (create_metadata w1 b)) = writes (snd (create_metadata w2 b))
         \<and> c1 = c2)"
proof (cases "\<exists>v. validate b = Next v")
  case False
  then have "snd (create_metadata w1 b) = []" and "snd (create_metadata w2 b) = []"
    by (simp_all add: rejected_no_effects)
  then show ?thesis by simp
next
  case True
  then obtain objectName fields' orgAlias
    where passed: "validate b = Next (objectName, fields', orgAlias)"
    by auto
  have "prefix (writes (snd (create_metadata w1 b))) (staged_files objectName fields')"
    and "prefix (writes (snd (create_metadata w2 b))) (staged_files objectName fields')"
    by (simp_all add: writes_of_run [OF passed] write_metadata_writes)
  then have comparable:
    "prefix (writes (snd (create_metadata w1 b))) (writes (snd (create_metadata w2 b)))
     \<or> prefix (writes (snd (create_metadata w2 b))) (writes (snd (create_metadata w1 b)))"
    by (rule prefix_same_cases)
  have same: "writes (snd (create_metadata w1 b)) = writes (snd (create_metadata w2 b)) \<and> c1 = c2"
    if "Exec c1 \<in> set (snd (create_metadata w1 b))"
      and "Exec c2 \<in> set (snd (create_metadata w2 b))" for c1 c2
  proof -
    have "writes (snd (create_metadata w1 b)) = staged_files objectName fields'"
      using reached_exec(1) [OF passed that(1)]
      by (simp add: writes_of_run [OF passed] write_metadata_done)
    moreover have "writes (snd (create_metadata w2 b)) = staged_files objectName fields'"
      using reached_exec(1) [OF passed that(2)]
      by (simp add: writes_of_run [OF passed] write_metadata_done)
    moreover have "c1 = c2"
      using reached_exec(2) [OF passed that(1)] reached_exec(2) [OF passed that(2)]
      by simp
    ultimately show ?thesis by simp
  qed
  from comparable same show ?thesis by blast
qed

text \<open>
  Witness for C6: the request with the seven documented types, run where the deployment
  succeeds and where the staging directory exists and the deployment fails.
\<close>

theorem generation_deterministic_witness:
  "Exec deploy_beat_plan \<in> set (snd (create_metadata deploying_world seven_types))
   \<and> Exec deploy_beat_plan \<in> set (snd (create_metadata failing_world seven_types))
   \<and> writes (snd (create_metadata deploying_world seven_types)) =
       writes (snd (create_metadata failing_world seven_types))
   \<and> length (writes (snd (create_metadata deploying_world seven_types))) = 3
   \<and> RmSync metadataDir \<notin> set (snd (create_metadata deploying_world seven_types))
   \<and> RmSync metadataDir \<in> set (snd (create_metadata failing_world seven_types))"
proof -
  have l1: "Exec deploy_beat_plan \<in> set (snd (create_metadata deploying_world seven_types))"
    and n1: "length (writes (snd (create_metadata deploying_world seven_types))) = 3"
    and d1: "RmSync metadataDir \<notin> set (snd (create_metadata deploying_world seven_types))"
    by (simp_all add: create_metadata_def try_block_def validate_def destructure_def invalid_field_def
        write_metadata_def seq_def compute_def fs_exists_def fs_call_def run_exec_def
        deploying_world_def deployCommand_def deploy_response_def generateObjectMetadata_def
        generateFieldsMetadata_def generatePackageXml_def fieldElement_def getFieldType_def
        generateFieldXml_def typeMap_get_def typeMap_def attempt_def seven_types_def
        deploy_beat_plan_def metadataDir_def objectDir_def)
  have l2: "Exec deploy_beat_plan \<in> set (snd (create_metadata failing_world seven_types))"
    and d2: "RmSync metadataDir \<in> set (snd (create_metadata failing_world seven_types))"
    by (simp_all add: create_metadata_def try_block_def validate_def destructure_def invalid_field_def
        write_metadata_def seq_def compute_def fs_exists_def fs_call_def run_exec_def
        failing_world_def deployCommand_def deploy_response_def generateObjectMetadata_def
        generateFieldsMetadata_def generatePackageXml_def fieldElement_def getFieldType_def
        generateFieldXml_def typeMap_get_def typeMap_def attempt_def seven_types_def
        deploy_beat_plan_def metadataDir_def objectDir_def)
  from generation_deterministic [of deploying_world seven_types failing_world] l1 l2
  have "writes (snd (create_metadata deploying_world seven_types)) =
        writes (snd (create_metadata failing_world seven_types))"
    by blast
  with l1 l2 n1 d1 d2 show ?thesis by simp
qed

end
